theory Spec2Isabelle
  imports Main
begin

section \<open>The AMQP client of the oracle: \<^verbatim>\<open>oracle/src/services/amqpClient.js\<close>\<close>

text \<open>
  The module talks to a message broker through a channel. Every request the module sends
  to the broker is modelled as a value of \<open>channel_op\<close>; a function of the module becomes
  a HOL function returning the list of requests it issues, in the order of issue, together
  with the outcome of the promise it returns.

  JavaScript numbers are modelled as mathematical integers (\<open>int\<close>): retry counts, delays
  and timeouts are whole numbers far below \<open>2 ^ 53\<close>, where the arithmetic of the source
  (\<open>+ 1\<close>, \<open>* 1000\<close>, \<open>* 10\<close>) is exact. The two collaborators whose code is in other
  modules, \<^verbatim>\<open>getRetrySequence\<close> and \<^verbatim>\<open>TRANSACTION_RESEND_TIMEOUT\<close>, are parameters
  of every definition that uses them.
\<close>

subsection \<open>Object literals and numbers in template strings\<close>

text \<open>
  An object literal such as \<^verbatim>\<open>{ persistent: true, headers: { 'x-retries': retries } }\<close>
  is an association list from keys to values, in the order the source writes them.
\<close>

datatype jsval =
    JBool bool
  | JNum int
  | JStr string
  | JObj "(string \<times> jsval) list"

type_synonym jsobject = "(string \<times> jsval) list"

text \<open>
  \<^verbatim>\<open>`${delay}`\<close> renders an integral number in decimal, with a leading minus sign
  when it is negative (JavaScript switches to exponent notation only from \<open>10 ^ 21\<close> on).
\<close>

fun digits :: "nat \<Rightarrow> string" where
  "digits n =
     (if n < 10 then [''0123456789'' ! n]
      else digits (n div 10) @ [''0123456789'' ! (n mod 10)])"

declare digits.simps [simp del]

definition number_toString :: "int \<Rightarrow> string" where
  "number_toString i =
     (if i < 0 then CHR ''-'' # digits (nat (- i)) else digits (nat i))"

subsection \<open>Requests to the broker, promises\<close>

text \<open>
  \<open>'m\<close> is the type of delivered messages (what \<^verbatim>\<open>consume\<close> hands to its callback),
  \<open>'d\<close> the type of payloads. \<open>Nack m allUpTo requeue\<close> carries the two flags of
  \<^verbatim>\<open>nack(message, allUpTo, requeue)\<close>.
\<close>

datatype ('m, 'd) channel_op =
    AssertExchange string string jsobject
  | AssertQueue string jsobject
  | BindQueue string string
  | Prefetch int
  | Consume string
  | SendToQueue string 'd jsobject
  | Ack 'm
  | Nack 'm bool bool

datatype outcome = Resolved | Rejected

text \<open>
  The broker is outside the module: it is a parameter that says, for each request,
  whether the promise of that request resolves (\<open>True\<close>) or rejects.
\<close>

type_synonym ('m, 'd) broker = "('m, 'd) channel_op \<Rightarrow> bool"

text \<open>
  \<^verbatim>\<open>await a; await b\<close>: the second request is issued only after the first has
  resolved; a rejection is thrown out of the \<^verbatim>\<open>async\<close> function and nothing more is
  issued.
\<close>

fun await_seq :: "('m, 'd) broker \<Rightarrow> ('m, 'd) channel_op list \<Rightarrow> outcome \<times> ('m, 'd) channel_op list" where
  "await_seq broker [] = (Resolved, [])"
| "await_seq broker (p # ps) =
     (if broker p then (case await_seq broker ps of (r, tr) \<Rightarrow> (r, p # tr))
      else (Rejected, [p]))"

text \<open>
  \<^verbatim>\<open>Promise.all([a, b, ...])\<close>: the array is built first, so every request is issued;
  the result rejects when one of them rejects.
\<close>

definition promise_all :: "('m, 'd) broker \<Rightarrow> ('m, 'd) channel_op list \<Rightarrow> outcome \<times> ('m, 'd) channel_op list" where
  "promise_all broker ps = (if list_all broker ps then Resolved else Rejected, ps)"

text \<open>
  \<^verbatim>\<open>connection.createChannel({ json: true, ... })\<close>: the wrapper is identified by its
  \<^verbatim>\<open>json\<close> option.
\<close>

datatype channel_wrapper = ChannelWrapper (json: bool)

subsection \<open>\<^verbatim>\<open>isAttached\<close>\<close>

text \<open>
  \<^verbatim>\<open>process.env.ORACLE_QUEUE_URL\<close> is \<open>None\<close> when the variable is not set. The
  constructor \<^verbatim>\<open>url.URL\<close> and \<^verbatim>\<open>dns.lookup\<close> belong to the runtime; they are the
  parameters \<open>hostname_of\<close> (\<open>None\<close> when the constructor throws) and \<open>lookup\<close>
  (\<open>True\<close> when the callback's \<^verbatim>\<open>err\<close> is \<^verbatim>\<open>null\<close>).
\<close>

datatype error = TypeError_Invalid_URL

definition falsy :: "string option \<Rightarrow> bool" where
  "falsy v = (case v of None \<Rightarrow> True | Some s \<Rightarrow> s = [])"

definition isAttached ::
  "string option \<Rightarrow> (string \<Rightarrow> string option) \<Rightarrow> (string \<Rightarrow> bool) \<Rightarrow> error + bool" where
  "isAttached ORACLE_QUEUE_URL hostname_of lookup =
     (if falsy ORACLE_QUEUE_URL then Inr False
      else case hostname_of (the ORACLE_QUEUE_URL) of
             None \<Rightarrow> Inl TypeError_Invalid_URL
           | Some amqpHost \<Rightarrow> Inr (lookup amqpHost))"

subsection \<open>\<^verbatim>\<open>generateRetry\<close> and \<^verbatim>\<open>generateTransactionResend\<close>\<close>

text \<open>
  Both functions receive \<^verbatim>\<open>channel\<close> and \<^verbatim>\<open>channelWrapper\<close>; the declaration goes to
  the first and the publication to the second. Both reach the same broker, the parameter
  \<open>broker\<close>.
\<close>

definition generateRetry ::
  "(int \<Rightarrow> int) \<Rightarrow> ('m, 'd) broker \<Rightarrow> 'd \<Rightarrow> int \<Rightarrow> string \<Rightarrow> string
     \<Rightarrow> outcome \<times> ('m, 'd) channel_op list" where
  "generateRetry getRetrySequence broker data msgRetries queueName deadLetterExchange =
     (let retries = msgRetries + 1;
          delay = getRetrySequence retries * 1000;
          retryQueue = queueName @ ''-retry-'' @ number_toString delay
      in await_seq broker
           [AssertQueue retryQueue
              [(''durable'', JBool True),
               (''deadLetterExchange'', JStr deadLetterExchange),
               (''messageTtl'', JNum delay),
               (''expires'', JNum (delay * 10))],
            SendToQueue retryQueue data
              [(''persistent'', JBool True),
               (''headers'', JObj [(''x-retries'', JNum retries)])]])"

definition generateTransactionResend ::
  "int \<Rightarrow> ('m, 'd) broker \<Rightarrow> 'd \<Rightarrow> string \<Rightarrow> string \<Rightarrow> outcome \<times> ('m, 'd) channel_op list" where
  "generateTransactionResend TRANSACTION_RESEND_TIMEOUT broker data queueName deadLetterExchange =
     (let retryQueue = queueName @ ''-check-tx-status''
      in await_seq broker
           [AssertQueue retryQueue
              [(''durable'', JBool True),
               (''deadLetterExchange'', JStr deadLetterExchange),
               (''messageTtl'', JNum TRANSACTION_RESEND_TIMEOUT),
               (''expires'', JNum (TRANSACTION_RESEND_TIMEOUT * 10))],
            SendToQueue retryQueue data
              [(''persistent'', JBool True)]])"

subsection \<open>The three roles\<close>

text \<open>
  The object handed to the callback of a consumer. A key that the object literal of a
  role does not have is \<open>None\<close>. The second parameter of \<^verbatim>\<open>scheduleForRetry\<close> has the
  default \<^verbatim>\<open>msgRetries = 0\<close>: \<open>None\<close> is the omitted argument.
\<close>

record ('m, 'd) handler_args =
  msg :: 'm
  channel :: channel_wrapper
  ackMsg :: "'m \<Rightarrow> ('m, 'd) channel_op list"
  nackMsg :: "'m \<Rightarrow> ('m, 'd) channel_op list"
  sendToSenderQueue :: "('d \<Rightarrow> outcome \<times> ('m, 'd) channel_op list) option"
  scheduleForRetry :: "'d \<Rightarrow> int option \<Rightarrow> outcome \<times> ('m, 'd) channel_op list"
  scheduleTransactionResend :: "('d \<Rightarrow> outcome \<times> ('m, 'd) channel_op list) option"

text \<open>
  A consumer: the channel wrapper it creates, what its setup routine does on the channel
  and the object its \<^verbatim>\<open>consume\<close> callback passes to \<^verbatim>\<open>cb\<close> for a delivered message.
\<close>

record ('m, 'd) consumer =
  consumer_channel :: channel_wrapper
  consumer_setup :: "outcome \<times> ('m, 'd) channel_op list"
  on_message :: "'m \<Rightarrow> ('m, 'd) handler_args"

definition connectSenderToQueue ::
  "(int \<Rightarrow> int) \<Rightarrow> int \<Rightarrow> ('m, 'd) broker \<Rightarrow> string \<Rightarrow> ('m, 'd) consumer" where
  "connectSenderToQueue getRetrySequence TRANSACTION_RESEND_TIMEOUT broker queueName =
     (let deadLetterExchange = queueName @ ''-retry'';
          channelWrapper = ChannelWrapper True
      in \<lparr> consumer_channel = channelWrapper,
           consumer_setup = promise_all broker
             [AssertExchange deadLetterExchange ''fanout'' [(''durable'', JBool True)],
              AssertQueue queueName [(''durable'', JBool True)],
              BindQueue queueName deadLetterExchange,
              Prefetch 1,
              Consume queueName],
           on_message = (\<lambda>m.
             \<lparr> msg = m,
               channel = channelWrapper,
               ackMsg = (\<lambda>job. [Ack job]),
               nackMsg = (\<lambda>job. [Nack job False True]),
               sendToSenderQueue = None,
               scheduleForRetry = (\<lambda>data msgRetries.
                 generateRetry getRetrySequence broker data
                   (case msgRetries of None \<Rightarrow> 0 | Some n \<Rightarrow> n) queueName deadLetterExchange),
               scheduleTransactionResend = Some (\<lambda>data.
                 generateTransactionResend TRANSACTION_RESEND_TIMEOUT broker data
                   queueName deadLetterExchange) \<rparr>) \<rparr>)"

definition connectWorkerToQueue ::
  "(int \<Rightarrow> int) \<Rightarrow> ('m, 'd) broker \<Rightarrow> string \<Rightarrow> string \<Rightarrow> ('m, 'd) consumer" where
  "connectWorkerToQueue getRetrySequence broker queueName senderQueue =
     (let deadLetterExchange = queueName @ ''-retry'';
          channelWrapper = ChannelWrapper True
      in \<lparr> consumer_channel = channelWrapper,
           consumer_setup = promise_all broker
             [AssertExchange deadLetterExchange ''fanout'' [(''durable'', JBool True)],
              AssertQueue queueName [(''durable'', JBool True)],
              AssertQueue senderQueue [(''durable'', JBool True)],
              BindQueue queueName deadLetterExchange,
              Prefetch 1,
              Consume queueName],
           on_message = (\<lambda>m.
             \<lparr> msg = m,
               channel = channelWrapper,
               ackMsg = (\<lambda>job. [Ack job]),
               nackMsg = (\<lambda>job. [Nack job False True]),
               sendToSenderQueue = Some (\<lambda>data.
                 await_seq broker [SendToQueue senderQueue data [(''persistent'', JBool True)]]),
               scheduleForRetry = (\<lambda>data msgRetries.
                 generateRetry getRetrySequence broker data
                   (case msgRetries of None \<Rightarrow> 0 | Some n \<Rightarrow> n) queueName deadLetterExchange),
               scheduleTransactionResend = None \<rparr>) \<rparr>)"

text \<open>
  The watcher: its setup routine and the object it passes to \<^verbatim>\<open>cb\<close>.
  \<^verbatim>\<open>workerQueue ? ... : ...\<close> tests the argument for truthiness: an omitted argument
  and the empty string both take the second branch.
\<close>

record ('m, 'd) watcher =
  watcher_setup :: "outcome \<times> ('m, 'd) channel_op list"
  sendToQueue :: "'d \<Rightarrow> outcome \<times> ('m, 'd) channel_op list"
  sendToWorker :: "('d \<Rightarrow> outcome \<times> ('m, 'd) channel_op list) option"
  watcher_channel :: channel_wrapper

definition connectWatcherToQueue ::
  "('m, 'd) broker \<Rightarrow> string \<Rightarrow> string option \<Rightarrow> ('m, 'd) watcher" where
  "connectWatcherToQueue broker queueName workerQueue =
     (let queueList = (if \<not> falsy workerQueue then [queueName, the workerQueue] else [queueName]);
          channelWrapper = ChannelWrapper True
      in \<lparr> watcher_setup =
             promise_all broker (map (\<lambda>queue. AssertQueue queue [(''durable'', JBool True)]) queueList),
           sendToQueue = (\<lambda>data.
             await_seq broker [SendToQueue queueName data [(''persistent'', JBool True)]]),
           sendToWorker =
             (if \<not> falsy workerQueue
              then Some (\<lambda>data.
                await_seq broker [SendToQueue (the workerQueue) data [(''persistent'', JBool True)]])
              else None),
           watcher_channel = channelWrapper \<rparr>)"

subsection \<open>Observing a sequence of requests\<close>

text \<open>
  The publications and the queue declarations among the requests of a call, and the
  lookup of a key in the \<^verbatim>\<open>headers\<close> object of publish options.
\<close>

fun published :: "('m, 'd) channel_op list \<Rightarrow> (string \<times> 'd \<times> jsobject) list" where
  "published [] = []"
| "published (SendToQueue q d opts # ps) = (q, d, opts) # published ps"
| "published (_ # ps) = published ps"

fun declared :: "('m, 'd) channel_op list \<Rightarrow> (string \<times> jsobject) list" where
  "declared [] = []"
| "declared (AssertQueue q opts # ps) = (q, opts) # declared ps"
| "declared (_ # ps) = declared ps"

definition header :: "jsobject \<Rightarrow> string \<Rightarrow> jsval option" where
  "header opts k =
     (case map_of opts ''headers'' of Some (JObj hs) \<Rightarrow> map_of hs k | _ \<Rightarrow> None)"

subsection \<open>The broker's side of an acknowledgement\<close>

text \<open>
  Modelled from the spec: the broker is not code of this repository, and what it does
  with \<^verbatim>\<open>ack\<close> and \<^verbatim>\<open>nack\<close> is what the specification (sections 3, 4.3 and 6: the
  manual acknowledgements of AMQP 0-9-1 with the requeue flag) says of it. The broker
  holds, for every queue name, the messages ready for delivery, the next one first, and
  the deliveries that are not yet acknowledged, oldest first, each with the queue it came
  from. A delivered message carries its delivery tag, so no message is unacknowledged
  twice.
\<close>

record 'm broker_state =
  ready :: "string \<Rightarrow> 'm list"
  unacked :: "(string \<times> 'm) list"

text \<open>
  Modelled from the spec: a delivery takes the first ready message of the queue and
  holds it as unacknowledged.
\<close>

definition deliver :: "string \<Rightarrow> 'm broker_state \<Rightarrow> ('m \<times> 'm broker_state) option" where
  "deliver q s =
     (case ready s q of
        [] \<Rightarrow> None
      | m # ms \<Rightarrow> Some (m, s\<lparr>ready := (ready s)(q := ms), unacked := unacked s @ [(q, m)]\<rparr>))"

text \<open>
  Modelled from the spec: the deliveries an acknowledgement of \<open>m\<close> covers (with
  \<open>allUpTo\<close>, every delivery up to and including that of \<open>m\<close>; without, that of \<open>m\<close>
  alone) and the ones it leaves outstanding.
\<close>

definition covered :: "'m \<Rightarrow> bool \<Rightarrow> (string \<times> 'm) list \<Rightarrow> (string \<times> 'm) list" where
  "covered m allUpTo us =
     (if allUpTo then take (Suc (length (takeWhile (\<lambda>d. snd d \<noteq> m) us))) us
      else filter (\<lambda>d. snd d = m) us)"

definition outstanding :: "'m \<Rightarrow> bool \<Rightarrow> (string \<times> 'm) list \<Rightarrow> (string \<times> 'm) list" where
  "outstanding m allUpTo us =
     (if allUpTo then drop (Suc (length (takeWhile (\<lambda>d. snd d \<noteq> m) us))) us
      else filter (\<lambda>d. snd d \<noteq> m) us)"

text \<open>
  Modelled from the spec: a requeued message goes back to the front of the queue it was
  delivered from; of several, the oldest delivery ends up first.
\<close>

fun requeue :: "(string \<times> 'm) list \<Rightarrow> (string \<Rightarrow> 'm list) \<Rightarrow> (string \<Rightarrow> 'm list)" where
  "requeue [] r = r"
| "requeue ((q, m) # ds) r = (requeue ds r)(q := m # requeue ds r q)"

text \<open>
  Modelled from the spec: \<^verbatim>\<open>ack\<close> settles the delivery for good; \<^verbatim>\<open>nack\<close> settles
  the deliveries it covers and, with the requeue flag, puts their messages back, else
  drops them. An acknowledgement of a message that is not outstanding is an error, and
  so is, here, every request that is not an acknowledgement (\<open>None\<close>).
\<close>

definition broker_step :: "'m broker_state \<Rightarrow> ('m, 'd) channel_op \<Rightarrow> 'm broker_state option" where
  "broker_step s p =
     (case p of
        Ack m \<Rightarrow>
          if m \<in> set (map snd (unacked s))
          then Some (s\<lparr>unacked := outstanding m False (unacked s)\<rparr>)
          else None
      | Nack m allUpTo requeue_flag \<Rightarrow>
          if m \<in> set (map snd (unacked s))
          then Some (s\<lparr>ready := (if requeue_flag
                                  then requeue (covered m allUpTo (unacked s)) (ready s)
                                  else ready s),
                        unacked := outstanding m allUpTo (unacked s)\<rparr>)
          else None
      | _ \<Rightarrow> None)"

text \<open>
  Modelled from the spec: what happens at the broker is a sequence of deliveries from
  queues and of requests from the client.
\<close>

datatype ('m, 'd) broker_event = Delivery string | Request "('m, 'd) channel_op"

fun after :: "'m broker_state \<Rightarrow> ('m, 'd) broker_event list \<Rightarrow> 'm broker_state option" where
  "after s [] = Some s"
| "after s (Delivery q # es) =
     (case deliver q s of None \<Rightarrow> None | Some (m, s') \<Rightarrow> after s' es)"
| "after s (Request p # es) =
     (case broker_step s p of None \<Rightarrow> None | Some s' \<Rightarrow> after s' es)"

subsection \<open>Concrete inputs\<close>

text \<open>
  A broker that accepts every request, and the backoff sequence 5, 15, 60 seconds indexed
  by the attempt number.
\<close>

definition accepting :: "('m, 'd) broker" where
  "accepting p = True"

definition backoff_5_15_60 :: "int \<Rightarrow> int" where
  "backoff_5_15_60 count = (if count \<le> 1 then 5 else if count = 2 then 15 else 60)"

text \<open>
  The answers of \<^verbatim>\<open>url.URL\<close> and of \<^verbatim>\<open>dns.lookup\<close> on the strings the examples
  use: \<^verbatim>\<open>amqp://rabbit\<close> has the host name \<^verbatim>\<open>rabbit\<close>, which resolves;
  \<^verbatim>\<open>not a url\<close> and the empty string have no scheme, and the constructor throws on
  both. No example evaluates the two functions on another string.
\<close>

definition url_hostname_sample :: "string \<Rightarrow> string option" where
  "url_hostname_sample u = (if u = ''amqp://rabbit'' then Some ''rabbit'' else None)"

definition dns_sample :: "string \<Rightarrow> bool" where
  "dns_sample host = (host = ''rabbit'')"

text \<open>
  A broker state: the queue \<^verbatim>\<open>jobs\<close> holds the messages \<^verbatim>\<open>a\<close> and \<^verbatim>\<open>b\<close>, and the
  message \<^verbatim>\<open>z\<close>, delivered from the queue \<^verbatim>\<open>other\<close>, is not yet acknowledged.
\<close>

definition jobs_a_b :: "string broker_state" where
  "jobs_a_b =
     \<lparr> ready = (\<lambda>q. if q = ''jobs'' then [''a'', ''b''] else []),
       unacked = [(''other'', ''z'')] \<rparr>"

section \<open>Properties\<close>

subsection \<open>What the capabilities of a consumer call\<close>

lemma sender_scheduleForRetry:
  "scheduleForRetry (on_message (connectSenderToQueue getRetrySequence T broker queueName) m) data r =
     generateRetry getRetrySequence broker data (case r of None \<Rightarrow> 0 | Some n \<Rightarrow> n)
       queueName (queueName @ ''-retry'')"
  by (simp add: connectSenderToQueue_def Let_def)

lemma worker_scheduleForRetry:
  "scheduleForRetry (on_message (connectWorkerToQueue getRetrySequence broker queueName senderQueue) m) data r =
     generateRetry getRetrySequence broker data (case r of None \<Rightarrow> 0 | Some n \<Rightarrow> n)
       queueName (queueName @ ''-retry'')"
  by (simp add: connectWorkerToQueue_def Let_def)

lemma sender_scheduleTransactionResend:
  "scheduleTransactionResend (on_message (connectSenderToQueue getRetrySequence T broker queueName) m) =
     Some (\<lambda>data. generateTransactionResend T broker data queueName (queueName @ ''-retry''))"
  by (simp add: connectSenderToQueue_def Let_def)

lemma generateRetry_requests:
  "snd (generateRetry getRetrySequence broker data n queueName deadLetterExchange) =
     (let delay = getRetrySequence (n + 1) * 1000;
          retryQueue = queueName @ ''-retry-'' @ number_toString delay;
          declaration = AssertQueue retryQueue
            [(''durable'', JBool True),
             (''deadLetterExchange'', JStr deadLetterExchange),
             (''messageTtl'', JNum delay),
             (''expires'', JNum (delay * 10))];
          publication = SendToQueue retryQueue data
            [(''persistent'', JBool True),
             (''headers'', JObj [(''x-retries'', JNum (n + 1))])]
      in if broker declaration then [declaration, publication] else [declaration])"
  by (simp add: generateRetry_def Let_def)

lemma generateRetry_outcome:
  "fst (generateRetry getRetrySequence broker data n queueName deadLetterExchange) =
     (let delay = getRetrySequence (n + 1) * 1000;
          retryQueue = queueName @ ''-retry-'' @ number_toString delay;
          declaration = AssertQueue retryQueue
            [(''durable'', JBool True),
             (''deadLetterExchange'', JStr deadLetterExchange),
             (''messageTtl'', JNum delay),
             (''expires'', JNum (delay * 10))];
          publication = SendToQueue retryQueue data
            [(''persistent'', JBool True),
             (''headers'', JObj [(''x-retries'', JNum (n + 1))])]
      in if broker declaration \<and> broker publication then Resolved else Rejected)"
  by (simp add: generateRetry_def Let_def)

lemma generateTransactionResend_requests:
  "snd (generateTransactionResend T broker data queueName deadLetterExchange) =
     (let retryQueue = queueName @ ''-check-tx-status'';
          declaration = AssertQueue retryQueue
            [(''durable'', JBool True),
             (''deadLetterExchange'', JStr deadLetterExchange),
             (''messageTtl'', JNum T),
             (''expires'', JNum (T * 10))];
          publication = SendToQueue retryQueue data [(''persistent'', JBool True)]
      in if broker declaration then [declaration, publication] else [declaration])"
  by (simp add: generateTransactionResend_def Let_def)

lemma number_toString_5000: "number_toString 5000 = ''5000''"
  by (simp add: number_toString_def digits.simps)

lemma number_toString_60000: "number_toString 60000 = ''60000''"
  by (simp add: number_toString_def digits.simps)

subsection \<open>Acknowledgements\<close>

text \<open>
  A message that is neither ready in a queue nor outstanding from it stays so, whatever
  deliveries and acknowledgements follow: only a requeue puts a message back, and only
  one that is outstanding.
\<close>

lemma requeue_subset:
  "set (requeue ds r q) \<subseteq> set (r q) \<union> {m. (q, m) \<in> set ds}"
  by (induction ds r rule: requeue.induct) auto

lemma deliver_keeps_gone:
  assumes "deliver q' s = Some (m', t)"
    and "m \<notin> set (ready s q)" and "(q, m) \<notin> set (unacked s)"
  shows "m \<notin> set (ready t q) \<and> (q, m) \<notin> set (unacked t)"
  using assms
  by (auto simp add: deliver_def split: list.splits if_splits)

lemma broker_step_keeps_gone:
  assumes "broker_step s p = Some t"
    and "m \<notin> set (ready s q)" and "(q, m) \<notin> set (unacked s)"
  shows "m \<notin> set (ready t q) \<and> (q, m) \<notin> set (unacked t)"
proof (cases p)
  case (Ack a)
  with assms show ?thesis
    by (auto simp add: broker_step_def outstanding_def split: if_splits)
next
  case (Nack a allUpTo rq)
  have cov: "set (covered a allUpTo (unacked s)) \<subseteq> set (unacked s)"
    by (auto simp add: covered_def dest: in_set_takeD)
  have out: "set (outstanding a allUpTo (unacked s)) \<subseteq> set (unacked s)"
    by (auto simp add: outstanding_def dest: in_set_dropD)
  from assms Nack have t: "t = s\<lparr>ready := (if rq then requeue (covered a allUpTo (unacked s)) (ready s) else ready s),
                        unacked := outstanding a allUpTo (unacked s)\<rparr>"
    by (auto simp add: broker_step_def split: if_splits)
  have "m \<notin> set (requeue (covered a allUpTo (unacked s)) (ready s) q)"
    using requeue_subset [of "covered a allUpTo (unacked s)" "ready s" q] cov assms(2,3) by auto
  with t out assms(2,3) show ?thesis by auto
qed (use assms in \<open>auto simp add: broker_step_def\<close>)

lemma after_keeps_gone:
  assumes "after s es = Some t"
    and "m \<notin> set (ready s q)" and "(q, m) \<notin> set (unacked s)"
  shows "m \<notin> set (ready t q) \<and> (q, m) \<notin> set (unacked t)"
  using assms
proof (induction s es rule: after.induct)
  case (1 s)
  then show ?case by simp
next
  case (2 s q' es)
  then obtain m' s' where d: "deliver q' s = Some (m', s')" and a: "after s' es = Some t"
    by (auto split: option.splits)
  from deliver_keeps_gone [OF d "2.prems"(2,3)] "2.IH" [OF d refl a] show ?case by blast
next
  case (3 s p es)
  then obtain s' where d: "broker_step s p = Some s'" and a: "after s' es = Some t"
    by (auto split: option.splits)
  from broker_step_keeps_gone [OF d "3.prems"(2,3)] "3.IH" [OF d a] show ?case by blast
qed

lemma fresh_filters:
  assumes "m \<notin> set (map snd us)"
  shows "filter (\<lambda>d. snd d \<noteq> m) us = us" and "filter (\<lambda>d. snd d = m) us = []"
  using assms by (auto simp add: filter_id_conv filter_empty_conv)

lemma nack_undoes_delivery:
  assumes "deliver q s = Some (m, s')" and "m \<notin> set (map snd (unacked s))"
  shows "broker_step s' (Nack m False True) = Some s"
proof -
  from assms(1) obtain ms where r: "ready s q = m # ms"
    and eq: "s' = s\<lparr>ready := (ready s)(q := ms), unacked := unacked s @ [(q, m)]\<rparr>"
    by (auto simp add: deliver_def split: list.splits)
  have restored: "(ready s)(q := m # ms) = ready s"
    using r by (simp add: fun_upd_idem)
  show ?thesis
    by (simp add: eq broker_step_def covered_def outstanding_def fresh_filters [OF assms(2)] restored)
qed

lemma ack_settles_delivery:
  assumes "deliver q s = Some (m, s')" and "m \<notin> set (map snd (unacked s))"
  shows "broker_step s' (Ack m) = Some (s'\<lparr>unacked := unacked s\<rparr>)"
proof -
  from assms(1) obtain ms where
    eq: "s' = s\<lparr>ready := (ready s)(q := ms), unacked := unacked s @ [(q, m)]\<rparr>"
    by (auto simp add: deliver_def split: list.splits)
  show ?thesis
    by (simp add: eq broker_step_def outstanding_def fresh_filters [OF assms(2)])
qed

lemma deliver_ready:
  assumes "deliver q s = Some (m, s')"
  shows "ready s q = m # ready s' q" and "q' \<noteq> q \<Longrightarrow> ready s q' = ready s' q'"
    and "unacked s' = unacked s @ [(q, m)]"
  using assms by (auto simp add: deliver_def split: list.splits)

text \<open>
  Claim C4. Let the broker deliver the message \<open>m\<close> from the work queue to the handler
  of the sender or of the worker, as a new delivery. \<^verbatim>\<open>nackMsg\<close> sends one negative
  acknowledgement of \<open>m\<close> alone (\<open>allUpTo\<close> false) with the requeue flag true. At the
  broker this undoes the delivery: \<open>m\<close> is again the first message of the work queue,
  so the next delivery from that queue is \<open>m\<close>; every other queue (a retry queue among
  them) is as it was, and the other outstanding deliveries stay outstanding.
  \<^verbatim>\<open>ackMsg\<close> sends one acknowledgement of \<open>m\<close>: the delivery is settled, the queues
  are unchanged, and when \<open>m\<close> is not a second time in the work queue, then after any
  further deliveries and acknowledgements it is neither in that queue nor outstanding from
  it nor the next message the queue delivers.
\<close>

theorem nack_redelivers_at_once_ack_removes:
  assumes "deliver queueName s = Some (m, s')"
    and "m \<notin> set (map snd (unacked s))"
    and "H = on_message (connectSenderToQueue getRetrySequence T broker queueName) m
         \<or> H = on_message (connectWorkerToQueue getRetrySequence broker queueName senderQueue) m"
  shows "nackMsg H m = [Nack m False True]
         \<and> ackMsg H m = [Ack m]
         \<and> after s' (map Request (nackMsg H m)) = Some s
         \<and> ready s queueName = m # ready s' queueName
         \<and> (\<forall>q. q \<noteq> queueName \<longrightarrow> ready s q = ready s' q)
         \<and> after s' (map Request (ackMsg H m)) = Some (s'\<lparr>unacked := unacked s\<rparr>)
         \<and> (\<forall>es t. m \<notin> set (ready s' queueName)
               \<longrightarrow> after s' (map Request (ackMsg H m) @ es) = Some t
               \<longrightarrow> m \<notin> set (ready t queueName) \<and> (queueName, m) \<notin> set (unacked t)
                   \<and> map_option fst (deliver queueName t) \<noteq> Some m)"
proof -
  from assms(3) have n: "nackMsg H m = [Nack m False True]" and a: "ackMsg H m = [Ack m]"
    by (auto simp add: connectSenderToQueue_def connectWorkerToQueue_def Let_def)
  have nacked: "after s' (map Request (nackMsg H m)) = Some s"
    by (simp add: n nack_undoes_delivery [OF assms(1,2)])
  have acked: "after s' (map Request (ackMsg H m)) = Some (s'\<lparr>unacked := unacked s\<rparr>)"
    by (simp add: a ack_settles_delivery [OF assms(1,2)])
  have never: "m \<notin> set (ready t queueName) \<and> (queueName, m) \<notin> set (unacked t)
               \<and> map_option fst (deliver queueName t) \<noteq> Some m"
    if absent: "m \<notin> set (ready s' queueName)"
      and run: "after s' (map Request (ackMsg H m) @ es) = Some t" for es t
  proof -
    from run have rest: "after (s'\<lparr>unacked := unacked s\<rparr>) es = Some t"
      by (simp add: a ack_settles_delivery [OF assms(1,2)])
    from assms(2) have "(queueName, m) \<notin> set (unacked s)"
      by force
    with absent after_keeps_gone [OF rest, of m queueName]
    have gone: "m \<notin> set (ready t queueName) \<and> (queueName, m) \<notin> set (unacked t)"
      by simp
    then have "map_option fst (deliver queueName t) \<noteq> Some m"
      by (auto simp add: deliver_def split: list.splits)
    with gone show ?thesis by blast
  qed
  from n a nacked acked never deliver_ready [OF assms(1)] show ?thesis
    by blast
qed

theorem nack_redelivers_at_once_ack_removes_witness:
  "map_option fst (deliver ''jobs'' jobs_a_b) = Some ''a''
   \<and> after (snd (the (deliver ''jobs'' jobs_a_b)))
       (map Request
          (nackMsg (on_message
             (connectSenderToQueue backoff_5_15_60 900000 (accepting :: (string, string) broker) ''jobs'')
             ''a'') ''a''))
     = Some jobs_a_b
   \<and> map_option (\<lambda>t. (ready t ''jobs'', unacked t))
       (after (snd (the (deliver ''jobs'' jobs_a_b)))
          (map Request
             (ackMsg (on_message
                (connectSenderToQueue backoff_5_15_60 900000 (accepting :: (string, string) broker) ''jobs'')
                ''a'') ''a'')))
     = Some ([''b''], [(''other'', ''z'')])"
proof -
  have d: "deliver ''jobs'' jobs_a_b = Some (''a'', snd (the (deliver ''jobs'' jobs_a_b)))"
    by (simp add: deliver_def jobs_a_b_def)
  have f: "''a'' \<notin> set (map snd (unacked jobs_a_b))"
    by (simp add: jobs_a_b_def)
  have h: "on_message
             (connectSenderToQueue backoff_5_15_60 900000 (accepting :: (string, string) broker) ''jobs'') ''a''
           = on_message
             (connectSenderToQueue backoff_5_15_60 900000 (accepting :: (string, string) broker) ''jobs'') ''a''
           \<or> on_message
             (connectSenderToQueue backoff_5_15_60 900000 (accepting :: (string, string) broker) ''jobs'') ''a''
           = on_message
             (connectWorkerToQueue backoff_5_15_60 (accepting :: (string, string) broker) ''jobs'' ''results'') ''a''"
    by simp
  note facts = nack_redelivers_at_once_ack_removes [OF d f h]
  from facts have nacked:
    "after (snd (the (deliver ''jobs'' jobs_a_b)))
       (map Request
          (nackMsg (on_message
             (connectSenderToQueue backoff_5_15_60 900000 (accepting :: (string, string) broker) ''jobs'')
             ''a'') ''a''))
     = Some jobs_a_b"
    by blast
  from facts have acked:
    "after (snd (the (deliver ''jobs'' jobs_a_b)))
       (map Request
          (ackMsg (on_message
             (connectSenderToQueue backoff_5_15_60 900000 (accepting :: (string, string) broker) ''jobs'')
             ''a'') ''a''))
     = Some ((snd (the (deliver ''jobs'' jobs_a_b)))\<lparr>unacked := unacked jobs_a_b\<rparr>)"
    by blast
  have first: "map_option fst (deliver ''jobs'' jobs_a_b) = Some ''a''"
    by (simp add: deliver_def jobs_a_b_def)
  have left: "ready (snd (the (deliver ''jobs'' jobs_a_b))) ''jobs'' = [''b'']"
    and others: "unacked jobs_a_b = [(''other'', ''z'')]"
    by (simp_all add: deliver_def jobs_a_b_def)
  show ?thesis
    unfolding nacked acked using first left others by simp
qed

subsection \<open>The attachment probe\<close>

text \<open>
  Claim C5. \<^verbatim>\<open>isAttached\<close> returns false when the URL variable is not set or is the
  empty string. When the variable holds a URL whose host is \<open>host\<close>, it returns false
  when the lookup of \<open>host\<close> fails and true when it succeeds.
\<close>

theorem isAttached_fails_closed_and_follows_dns:
  "isAttached None hostname_of lookup = Inr False
   \<and> isAttached (Some []) hostname_of lookup = Inr False
   \<and> (url \<noteq> [] \<and> hostname_of url = Some host \<and> \<not> lookup host
        \<longrightarrow> isAttached (Some url) hostname_of lookup = Inr False)
   \<and> (url \<noteq> [] \<and> hostname_of url = Some host \<and> lookup host
        \<longrightarrow> isAttached (Some url) hostname_of lookup = Inr True)"
  by (simp add: isAttached_def falsy_def)

theorem isAttached_fails_closed_and_follows_dns_witness:
  "isAttached None (\<lambda>u. if u = ''amqp://rabbit'' then Some ''rabbit'' else None) (\<lambda>h. h = ''rabbit'')
     = Inr False
   \<and> isAttached (Some ''amqp://rabbit'')
       (\<lambda>u. if u = ''amqp://rabbit'' then Some ''rabbit'' else None) (\<lambda>h. h = ''rabbit'')
     = Inr True
   \<and> isAttached (Some ''amqp://rabbit'')
       (\<lambda>u. if u = ''amqp://rabbit'' then Some ''rabbit'' else None) (\<lambda>h. h = ''nowhere'')
     = Inr False"
  using isAttached_fails_closed_and_follows_dns
          [of "\<lambda>u. if u = ''amqp://rabbit'' then Some ''rabbit'' else None" "\<lambda>h. h = ''rabbit''"
              "''amqp://rabbit''" "''rabbit''"]
        isAttached_fails_closed_and_follows_dns
          [of "\<lambda>u. if u = ''amqp://rabbit'' then Some ''rabbit'' else None" "\<lambda>h. h = ''nowhere''"
              "''amqp://rabbit''" "''rabbit''"]
  by simp

text \<open>
  Claim C9, as the source has it. When the URL variable is set to a non-empty string that
  \<^verbatim>\<open>url.URL\<close> cannot parse, \<^verbatim>\<open>isAttached\<close> does not return false: the constructor
  throws, whatever the lookup would answer.
\<close>

theorem isAttached_throws_on_unparseable_url:
  assumes "url \<noteq> []" and "hostname_of url = None"
  shows "isAttached (Some url) hostname_of lookup = Inl TypeError_Invalid_URL
         \<and> isAttached (Some url) hostname_of lookup \<noteq> Inr False"
  using assms by (simp add: isAttached_def falsy_def)

theorem isAttached_throws_on_unparseable_url_witness:
  "''not a url'' \<noteq> [] \<and> url_hostname_sample ''not a url'' = None
   \<and> isAttached (Some ''not a url'') url_hostname_sample dns_sample = Inl TypeError_Invalid_URL"
  using isAttached_throws_on_unparseable_url [of "''not a url''" url_hostname_sample dns_sample]
  by (simp add: url_hostname_sample_def)

text \<open>
  Claim C9 as the specification words it covers every value that is set and is not a
  URL. The empty string is such a value (the constructor throws on it), and there the
  guard of the first line answers false before the constructor is reached.
\<close>

theorem isAttached_false_on_empty_url:
  "url_hostname_sample [] = None
   \<and> isAttached (Some []) url_hostname_sample dns_sample = Inr False"
  by (simp add: url_hostname_sample_def isAttached_def falsy_def)

subsection \<open>Topology of the roles\<close>

text \<open>
  Claim C7. For every queue name, the setup of the sender declares the durable fanout
  exchange \<open>queueName-retry\<close>, declares the work queue durable, binds the queue to the
  exchange, sets the prefetch count to 1 and starts consuming. The setup of the worker
  does the same and declares the queue \<open>senderQueue\<close> durable as well; the object the
  worker hands to its handler has \<^verbatim>\<open>sendToSenderQueue\<close>, which publishes a persistent
  message to \<open>senderQueue\<close>, and has no \<^verbatim>\<open>scheduleTransactionResend\<close>.
\<close>

theorem sender_and_worker_setup:
  "snd (consumer_setup (connectSenderToQueue getRetrySequence T broker queueName)) =
     [AssertExchange (queueName @ ''-retry'') ''fanout'' [(''durable'', JBool True)],
      AssertQueue queueName [(''durable'', JBool True)],
      BindQueue queueName (queueName @ ''-retry''),
      Prefetch 1,
      Consume queueName]
   \<and> snd (consumer_setup (connectWorkerToQueue getRetrySequence broker queueName senderQueue)) =
     [AssertExchange (queueName @ ''-retry'') ''fanout'' [(''durable'', JBool True)],
      AssertQueue queueName [(''durable'', JBool True)],
      AssertQueue senderQueue [(''durable'', JBool True)],
      BindQueue queueName (queueName @ ''-retry''),
      Prefetch 1,
      Consume queueName]
   \<and> (\<exists>send. sendToSenderQueue
          (on_message (connectWorkerToQueue getRetrySequence broker queueName senderQueue) m) = Some send
        \<and> (\<forall>data. snd (send data) = [SendToQueue senderQueue data [(''persistent'', JBool True)]]))
   \<and> scheduleTransactionResend
        (on_message (connectWorkerToQueue getRetrySequence broker queueName senderQueue) m) = None
   \<and> sendToSenderQueue
        (on_message (connectSenderToQueue getRetrySequence T broker queueName) m) = None"
  by (simp add: connectSenderToQueue_def connectWorkerToQueue_def promise_all_def Let_def)

text \<open>
  Claim C8. The watcher declares the target queue durable and, when a worker queue is
  given (the source tests the argument for truthiness, so an empty name counts as not
  given), that queue as well. It hands out \<^verbatim>\<open>sendToQueue\<close>, and \<^verbatim>\<open>sendToWorker\<close>
  only when a worker queue is given; each publishes a persistent message to its queue.
  The watcher never starts a consumer.
\<close>

theorem watcher_declares_and_sends:
  "snd (watcher_setup (connectWatcherToQueue broker queueName None)) =
     [AssertQueue queueName [(''durable'', JBool True)]]
   \<and> sendToWorker (connectWatcherToQueue broker queueName None) = None
   \<and> snd (watcher_setup (connectWatcherToQueue broker queueName (Some []))) =
     [AssertQueue queueName [(''durable'', JBool True)]]
   \<and> sendToWorker (connectWatcherToQueue broker queueName (Some [])) = None
   \<and> (workerQueue \<noteq> [] \<longrightarrow>
        snd (watcher_setup (connectWatcherToQueue broker queueName (Some workerQueue))) =
          [AssertQueue queueName [(''durable'', JBool True)],
           AssertQueue workerQueue [(''durable'', JBool True)]]
        \<and> (\<exists>send. sendToWorker (connectWatcherToQueue broker queueName (Some workerQueue)) = Some send
             \<and> (\<forall>data. snd (send data) =
                   [SendToQueue workerQueue data [(''persistent'', JBool True)]])))
   \<and> (\<forall>data. snd (sendToQueue (connectWatcherToQueue broker queueName w) data) =
         [SendToQueue queueName data [(''persistent'', JBool True)]])
   \<and> (\<forall>q. Consume q \<notin> set (snd (watcher_setup (connectWatcherToQueue broker queueName w))))"
  by (auto simp add: connectWatcherToQueue_def promise_all_def falsy_def Let_def)

theorem watcher_declares_and_sends_witness:
  "snd (watcher_setup (connectWatcherToQueue (accepting :: (unit, string) broker) ''signatures'' (Some ''worker''))) =
     [AssertQueue ''signatures'' [(''durable'', JBool True)],
      AssertQueue ''worker'' [(''durable'', JBool True)]]
   \<and> (\<exists>send. sendToWorker (connectWatcherToQueue (accepting :: (unit, string) broker) ''signatures'' (Some ''worker'')) = Some send
         \<and> (\<forall>data. snd (send data) = [SendToQueue ''worker'' data [(''persistent'', JBool True)]]))"
  using watcher_declares_and_sends
          [of "accepting :: (unit, string) broker" "''signatures''" "''worker''" "Some ''worker''"]
  by simp

subsection \<open>Scheduling a retry\<close>

text \<open>
  Claim C1, as the source has it. For every payload and every retry count \<open>n \<ge> 0\<close>,
  \<^verbatim>\<open>scheduleForRetry(data, n)\<close> of the sender and of the worker computes
  \<open>nextRetryCount = n + 1\<close> and \<open>delayMillis = getRetrySequence (n + 1) * 1000\<close>,
  declares the retry queue named \<open>queueName-retry-delayMillis\<close> and, once the declaration
  has resolved, publishes \<open>data\<close> to that queue as a persistent message whose headers are
  \<^verbatim>\<open>{ 'x-retries': nextRetryCount }\<close>. The promise resolves when the broker
  accepts both requests.
\<close>

theorem scheduleForRetry_publishes_with_x_retries:
  assumes "0 \<le> n"
  shows
    "let nextRetryCount = n + 1;
         delayMillis = getRetrySequence nextRetryCount * 1000;
         retryQueue = queueName @ ''-retry-'' @ number_toString delayMillis;
         declaration = AssertQueue retryQueue
           [(''durable'', JBool True),
            (''deadLetterExchange'', JStr (queueName @ ''-retry'')),
            (''messageTtl'', JNum delayMillis),
            (''expires'', JNum (delayMillis * 10))];
         publication = SendToQueue retryQueue data
           [(''persistent'', JBool True),
            (''headers'', JObj [(''x-retries'', JNum nextRetryCount)])];
         sender = scheduleForRetry
           (on_message (connectSenderToQueue getRetrySequence T broker queueName) m) data (Some n);
         worker = scheduleForRetry
           (on_message (connectWorkerToQueue getRetrySequence broker queueName senderQueue) m) data (Some n)
     in snd sender = (if broker declaration then [declaration, publication] else [declaration])
        \<and> snd worker = snd sender
        \<and> published (snd sender) =
            (if broker declaration
             then [(retryQueue, data,
                    [(''persistent'', JBool True),
                     (''headers'', JObj [(''x-retries'', JNum nextRetryCount)])])]
             else [])
        \<and> fst sender = (if broker declaration \<and> broker publication then Resolved else Rejected)
        \<and> fst worker = fst sender"
  by (simp add: sender_scheduleForRetry worker_scheduleForRetry generateRetry_requests
        generateRetry_outcome Let_def)

theorem scheduleForRetry_publishes_with_x_retries_witness:
  "(0::int) \<le> 2
   \<and> scheduleForRetry
       (on_message (connectSenderToQueue backoff_5_15_60 900000 accepting ''jobs'') ()) ''tx'' (Some 2)
     = (Resolved,
        [AssertQueue ''jobs-retry-60000''
           [(''durable'', JBool True),
            (''deadLetterExchange'', JStr ''jobs-retry''),
            (''messageTtl'', JNum 60000),
            (''expires'', JNum 600000)],
         SendToQueue ''jobs-retry-60000'' ''tx''
           [(''persistent'', JBool True),
            (''headers'', JObj [(''x-retries'', JNum 3)])]])"
proof -
  have n: "(0::int) \<le> 2" by simp
  show ?thesis
    using scheduleForRetry_publishes_with_x_retries
            [OF n, of backoff_5_15_60 "''jobs''" "''tx''" 900000 "accepting :: (unit, string) broker" "()"]
    by (simp add: Let_def backoff_5_15_60_def accepting_def number_toString_60000 prod_eq_iff)
qed

text \<open>
  Claim C1 as the specification words it names the header \<open>retries\<close>. At retry count 2
  on the queue \<open>jobs\<close> the message published by the worker's capability is not the one
  with \<^verbatim>\<open>{ retries: 3 }\<close>: its headers have no key \<open>retries\<close>, and the count is under
  \<open>x-retries\<close>.
\<close>

theorem scheduleForRetry_header_is_not_retries:
  "published (snd (scheduleForRetry
      (on_message (connectWorkerToQueue backoff_5_15_60 accepting ''jobs'' ''results'') ())
      ''tx'' (Some 2)))
     \<noteq> [(''jobs-retry-60000'', ''tx'',
         [(''persistent'', JBool True), (''headers'', JObj [(''retries'', JNum 3)])])]
   \<and> map (\<lambda>(q, d, opts). (q, d, header opts ''retries'', header opts ''x-retries''))
       (published (snd (scheduleForRetry
          (on_message (connectWorkerToQueue backoff_5_15_60 accepting ''jobs'' ''results'') ())
          ''tx'' (Some 2))))
     = [(''jobs-retry-60000'', ''tx'', None, Some (JNum 3))]"
  by (simp add: worker_scheduleForRetry generateRetry_requests Let_def backoff_5_15_60_def
        accepting_def number_toString_60000 header_def)

text \<open>
  Claim C2, as the source has it. Every retry declares exactly one queue: the retry
  queue, durable, dead-lettering into the exchange \<open>queueName-retry\<close> (the exchange the
  setup of the role declares), with message TTL \<open>delayMillis\<close> and expiry
  \<open>delayMillis * 10\<close>. In particular, on the work queue \<open>payments\<close> with a backoff
  whose first value is 5 seconds, \<^verbatim>\<open>scheduleForRetry(msg, 0)\<close> declares
  \<open>payments-retry-5000\<close> with TTL 5000 and expiry 50000, and the message it then
  publishes carries the headers \<^verbatim>\<open>{ 'x-retries': 1 }\<close>.
\<close>

theorem retry_queue_ttl_and_expiry:
  "(let delayMillis = getRetrySequence (n + 1) * 1000;
        retryQueue = queueName @ ''-retry-'' @ number_toString delayMillis;
        options =
          [(''durable'', JBool True),
           (''deadLetterExchange'', JStr (queueName @ ''-retry'')),
           (''messageTtl'', JNum delayMillis),
           (''expires'', JNum (delayMillis * 10))]
    in declared (snd (scheduleForRetry
          (on_message (connectSenderToQueue getRetrySequence T broker queueName) m) data (Some n)))
         = [(retryQueue, options)]
       \<and> declared (snd (scheduleForRetry
          (on_message (connectWorkerToQueue getRetrySequence broker queueName senderQueue) m) data (Some n)))
         = [(retryQueue, options)]
       \<and> AssertExchange (queueName @ ''-retry'') ''fanout'' [(''durable'', JBool True)]
           \<in> set (snd (consumer_setup (connectSenderToQueue getRetrySequence T broker queueName)))
       \<and> AssertExchange (queueName @ ''-retry'') ''fanout'' [(''durable'', JBool True)]
           \<in> set (snd (consumer_setup (connectWorkerToQueue getRetrySequence broker queueName senderQueue))))
   \<and> (getRetrySequence 1 = 5 \<longrightarrow>
        (let declaration = AssertQueue ''payments-retry-5000''
               [(''durable'', JBool True),
                (''deadLetterExchange'', JStr ''payments-retry''),
                (''messageTtl'', JNum 5000),
                (''expires'', JNum 50000)];
             publication = SendToQueue ''payments-retry-5000'' data
               [(''persistent'', JBool True),
                (''headers'', JObj [(''x-retries'', JNum 1)])]
         in snd (scheduleForRetry
              (on_message (connectSenderToQueue getRetrySequence T broker ''payments'') m) data (Some 0))
            = (if broker declaration then [declaration, publication] else [declaration])))"
  by (auto simp add: sender_scheduleForRetry worker_scheduleForRetry generateRetry_requests
        Let_def number_toString_5000 connectSenderToQueue_def connectWorkerToQueue_def
        promise_all_def)

theorem retry_queue_ttl_and_expiry_witness:
  "backoff_5_15_60 1 = 5
   \<and> snd (scheduleForRetry
        (on_message (connectSenderToQueue backoff_5_15_60 900000 accepting ''payments'') ())
        ''msg'' (Some 0))
     = [AssertQueue ''payments-retry-5000''
          [(''durable'', JBool True),
           (''deadLetterExchange'', JStr ''payments-retry''),
           (''messageTtl'', JNum 5000),
           (''expires'', JNum 50000)],
        SendToQueue ''payments-retry-5000'' ''msg''
          [(''persistent'', JBool True),
           (''headers'', JObj [(''x-retries'', JNum 1)])]]"
  using retry_queue_ttl_and_expiry
          [of backoff_5_15_60 0 "''payments''" 900000 "accepting :: (unit, string) broker" "()" "''msg''"]
  by (simp add: Let_def backoff_5_15_60_def accepting_def)

text \<open>
  Claim C2 as the specification words it: in its scenario the published message does not carry
  \<^verbatim>\<open>{ retries: 1 }\<close>: the key \<open>retries\<close> is absent from its headers and the count
  is under \<open>x-retries\<close>.
\<close>

theorem payments_scenario_header_is_not_retries:
  "published (snd (scheduleForRetry
      (on_message (connectSenderToQueue backoff_5_15_60 900000 accepting ''payments'') ())
      ''msg'' (Some 0)))
     \<noteq> [(''payments-retry-5000'', ''msg'',
         [(''persistent'', JBool True), (''headers'', JObj [(''retries'', JNum 1)])])]
   \<and> map (\<lambda>(q, d, opts). (q, d, header opts ''retries'', header opts ''x-retries''))
       (published (snd (scheduleForRetry
          (on_message (connectSenderToQueue backoff_5_15_60 900000 accepting ''payments'') ())
          ''msg'' (Some 0))))
     = [(''payments-retry-5000'', ''msg'', None, Some (JNum 1))]"
  by (simp add: sender_scheduleForRetry generateRetry_requests Let_def backoff_5_15_60_def
        accepting_def number_toString_5000 header_def)

text \<open>
  Claim C6. Two calls of \<^verbatim>\<open>scheduleForRetry\<close> on one work queue, from the sender or from
  the worker, with any payloads, messages and retry counts: when their delays are equal,
  each declares exactly one queue, and the two declarations are the same, name and
  options (TTL, expiry, dead-letter exchange) alike; the TTL the first call declares is
  the delay of the second.
\<close>

theorem equal_delays_declare_the_same_retry_queue:
  assumes "getRetrySequence (n1 + 1) * 1000 = getRetrySequence (n2 + 1) * 1000"
  shows
    "let sender1 = scheduleForRetry
           (on_message (connectSenderToQueue getRetrySequence T broker queueName) m1) data1 (Some n1);
         sender2 = scheduleForRetry
           (on_message (connectSenderToQueue getRetrySequence T broker queueName) m2) data2 (Some n2);
         worker1 = scheduleForRetry
           (on_message (connectWorkerToQueue getRetrySequence broker queueName senderQueue) m1) data1 (Some n1);
         worker2 = scheduleForRetry
           (on_message (connectWorkerToQueue getRetrySequence broker queueName senderQueue) m2) data2 (Some n2)
     in declared (snd sender1) = declared (snd sender2)
        \<and> declared (snd worker1) = declared (snd worker2)
        \<and> declared (snd sender1) = declared (snd worker2)
        \<and> length (declared (snd sender1)) = 1
        \<and> map fst (declared (snd sender1)) =
            [queueName @ ''-retry-'' @ number_toString (getRetrySequence (n1 + 1) * 1000)]
        \<and> map_of (snd (hd (declared (snd sender1)))) ''messageTtl'' =
            Some (JNum (getRetrySequence (n2 + 1) * 1000))"
  using assms
  by (simp add: sender_scheduleForRetry worker_scheduleForRetry generateRetry_requests Let_def)

theorem equal_delays_declare_the_same_retry_queue_witness:
  "backoff_5_15_60 (3 + 1) * 1000 = backoff_5_15_60 (7 + 1) * 1000
   \<and> declared (snd (scheduleForRetry
        (on_message (connectSenderToQueue backoff_5_15_60 900000 accepting ''jobs'') ()) ''a'' (Some 3)))
     = declared (snd (scheduleForRetry
        (on_message (connectWorkerToQueue backoff_5_15_60 accepting ''jobs'' ''results'') ()) ''b'' (Some 7)))"
proof -
  have d: "backoff_5_15_60 (3 + 1) * 1000 = backoff_5_15_60 (7 + 1) * 1000"
    by (simp add: backoff_5_15_60_def)
  have "declared (snd (scheduleForRetry
        (on_message (connectSenderToQueue backoff_5_15_60 900000 accepting ''jobs'') ()) ''a'' (Some 3)))
     = declared (snd (scheduleForRetry
        (on_message (connectWorkerToQueue backoff_5_15_60 accepting ''jobs'' ''results'') ()) ''b'' (Some 7)))"
    using equal_delays_declare_the_same_retry_queue
            [OF d, where T = 900000 and broker = "accepting :: (unit, string) broker"
               and queueName = "''jobs''" and ?m1.0 = "()" and ?data1.0 = "''a''"
               and ?m2.0 = "()" and ?data2.0 = "''b''" and senderQueue = "''results''"]
    unfolding Let_def by blast
  with d show ?thesis by blast
qed

text \<open>
  Claim C10. The options of the message \<^verbatim>\<open>generateRetry\<close> publishes are exactly
  \<^verbatim>\<open>persistent: true\<close> and a \<^verbatim>\<open>headers\<close> object with the single key \<open>x-retries\<close>,
  mapped to the incremented count; \<open>retries\<close> and every other key are absent from the
  headers. The delivered message is no input of the call: the capability built for one
  message is the capability built for any other.
\<close>

theorem retry_publish_options_are_persistent_and_x_retries:
  "let delay = getRetrySequence (n + 1) * 1000;
       retryQueue = queueName @ ''-retry-'' @ number_toString delay;
       declaration = AssertQueue retryQueue
         [(''durable'', JBool True),
          (''deadLetterExchange'', JStr deadLetterExchange),
          (''messageTtl'', JNum delay),
          (''expires'', JNum (delay * 10))];
       options = [(''persistent'', JBool True), (''headers'', JObj [(''x-retries'', JNum (n + 1))])]
   in published (snd (generateRetry getRetrySequence broker data n queueName deadLetterExchange)) =
        (if broker declaration then [(retryQueue, data, options)] else [])
      \<and> map fst options = [''persistent'', ''headers'']
      \<and> header options ''x-retries'' = Some (JNum (n + 1))
      \<and> header options ''retries'' = None
      \<and> (\<forall>k. header options k = (if k = ''x-retries'' then Some (JNum (n + 1)) else None))
      \<and> scheduleForRetry (on_message (connectSenderToQueue getRetrySequence T broker queueName) m)
          = scheduleForRetry (on_message (connectSenderToQueue getRetrySequence T broker queueName) m')
      \<and> scheduleForRetry (on_message (connectWorkerToQueue getRetrySequence broker queueName senderQueue) m)
          = scheduleForRetry (on_message (connectWorkerToQueue getRetrySequence broker queueName senderQueue) m')"
  by (simp add: generateRetry_requests Let_def header_def connectSenderToQueue_def
        connectWorkerToQueue_def)

subsection \<open>Scheduling a transaction resend\<close>

text \<open>
  Claim C3. The handler object of the sender has \<^verbatim>\<open>scheduleTransactionResend\<close>; that of
  the worker has not. For every payload the capability declares the one queue
  \<open>queueName-check-tx-status\<close> with message TTL \<open>TRANSACTION_RESEND_TIMEOUT\<close> and expiry
  \<open>TRANSACTION_RESEND_TIMEOUT * 10\<close> and, once the declaration has resolved, publishes the
  payload there with the options \<^verbatim>\<open>{ persistent: true }\<close>: the message has no header
  at all, so none named \<open>retries\<close> or \<open>x-retries\<close>.
\<close>

theorem transaction_resend_fixed_queue_no_headers:
  "scheduleTransactionResend
      (on_message (connectWorkerToQueue getRetrySequence broker queueName senderQueue) m) = None
   \<and> (\<exists>resend.
        scheduleTransactionResend
          (on_message (connectSenderToQueue getRetrySequence TRANSACTION_RESEND_TIMEOUT broker queueName) m)
          = Some resend
        \<and> (\<forall>data.
             let retryQueue = queueName @ ''-check-tx-status'';
                 declaration = AssertQueue retryQueue
                   [(''durable'', JBool True),
                    (''deadLetterExchange'', JStr (queueName @ ''-retry'')),
                    (''messageTtl'', JNum TRANSACTION_RESEND_TIMEOUT),
                    (''expires'', JNum (TRANSACTION_RESEND_TIMEOUT * 10))];
                 publication = SendToQueue retryQueue data [(''persistent'', JBool True)]
             in snd (resend data) =
                  (if broker declaration then [declaration, publication] else [declaration])
                \<and> list_all (\<lambda>(q, d, opts). map_of opts ''headers'' = None
                                \<and> (\<forall>k. header opts k = None))
                     (published (snd (resend data)))))"
  by (simp add: sender_scheduleTransactionResend generateTransactionResend_requests
        connectWorkerToQueue_def Let_def header_def)

end
